theory Spec2Isabelle
  imports Complex_Main
begin

section \<open>Errors\<close>

text \<open>
  The Python exceptions the modelled functions can raise. A function that can raise
  returns \<open>py_error + 'a\<close>, with \<open>Inl\<close> for the exception.
\<close>

datatype py_error = IndexError | ValueError | UnboundLocalError | TypeError | ExternalToolError

section \<open>confounds.py: compute_aCompCor\<close>

text \<open>
  The loop of \<open>compute_aCompCor\<close> under method \<open>'50%'\<close>:
  \<^verbatim>\<open>
    cum_var=0
    num_comp=0
    while(cum_var<=0.5):
        cum_var+=explained_variance[num_comp]
        num_comp+=1
  \<close>
  \<open>explained_variance[num_comp]\<close> raises IndexError once \<open>num_comp\<close> reaches the
  length of the array. The ratios are floats in the source and reals here.
\<close>

function aCompCor_while :: "real list \<Rightarrow> real \<Rightarrow> nat \<Rightarrow> py_error + nat" where
  "aCompCor_while explained_variance cum_var num_comp =
     (if cum_var \<le> 1 / 2 then
        (if num_comp < length explained_variance
         then aCompCor_while explained_variance
                (cum_var + explained_variance ! num_comp) (Suc num_comp)
         else Inl IndexError)
      else Inr num_comp)"
  by pat_completeness auto
termination
  by (relation "measure (\<lambda>(ev, c, n). length ev - n)") auto

declare aCompCor_while.simps [simp del]

text \<open>
  The \<open>if method=='50%' ... elif method=='first_5'\<close> chain. It assigns \<open>num_comp\<close>
  in its two branches only: \<open>None\<close> is the local variable left unbound.
\<close>

definition assign_num_comp :: "string \<Rightarrow> real list \<Rightarrow> py_error + nat option" where
  "assign_num_comp method explained_variance =
     (if method = ''50%'' then
        (case aCompCor_while explained_variance 0 0 of
           Inl e \<Rightarrow> Inl e
         | Inr n \<Rightarrow> Inr (Some n))
      else if method = ''first_5'' then Inr (Some 5)
      else Inr None)"

text \<open>
  \<open>compute_aCompCor\<close>. The masked, detrended and standardised time series and the two
  scikit-learn decompositions are external: \<open>explained_variance\<close> is the array
  \<open>pca.explained_variance_ratio_\<close> of the unconstrained fit, which scikit-learn returns
  in descending order, and \<open>PCA_fit_transform n\<close> is
  \<open>PCA(n_components=n).fit_transform(mask_timeseries)\<close>, which may raise.
  Reading the unbound \<open>num_comp\<close> raises UnboundLocalError.
\<close>

definition compute_aCompCor ::
  "string \<Rightarrow> real list \<Rightarrow> (nat \<Rightarrow> py_error + 'c) \<Rightarrow> py_error + ('c \<times> nat)" where
  "compute_aCompCor method explained_variance PCA_fit_transform =
     (case assign_num_comp method explained_variance of
        Inl e \<Rightarrow> Inl e
      | Inr None \<Rightarrow> Inl UnboundLocalError
      | Inr (Some num_comp) \<Rightarrow>
          (case PCA_fit_transform num_comp of
             Inl e \<Rightarrow> Inl e
           | Inr comp_timeseries \<Rightarrow> Inr (comp_timeseries, num_comp)))"

section \<open>confounds.py: motion_24_params\<close>

text \<open>
  A two-dimensional numpy array is the list of its rows. \<open>rigid_params\<close> is the array
  \<open>extract_rigid_movpar\<close> returns, created there as \<open>np.zeros([len(temp)-1, 6])\<close>:
  one row of 6 floats (reals here) per data row of the CSV file.
\<close>

definition zeros2 :: "nat \<Rightarrow> nat \<Rightarrow> real list list" where
  "zeros2 r c = replicate r (replicate c 0)"

text \<open>\<open>m[:,j]\<close>\<close>

definition column :: "nat \<Rightarrow> real list list \<Rightarrow> real list" where
  "column j m = map (\<lambda>row. row ! j) m"

text \<open>\<open>m[k,j]=v\<close>, for \<open>k\<close> in range (the caller tests it).\<close>

definition set_cell :: "nat \<Rightarrow> nat \<Rightarrow> real \<Rightarrow> real list list \<Rightarrow> real list list" where
  "set_cell k j v m = m[k := (m ! k)[j := v]]"

text \<open>\<open>m[lo:,j]=vs\<close>, for \<open>vs\<close> with one value per row from \<open>lo\<close> on.\<close>

definition set_column_from ::
  "nat \<Rightarrow> nat \<Rightarrow> real list \<Rightarrow> real list list \<Rightarrow> real list list" where
  "set_column_from lo j vs m = take lo m @ map2 (\<lambda>row v. row[j := v]) (drop lo m) vs"

text \<open>\<open>movpar[:,:6]=rigid_params\<close>, for \<open>rigid_params\<close> of shape \<open>(t, 6)\<close>.\<close>

definition set_first6 :: "real list list \<Rightarrow> real list list \<Rightarrow> real list list" where
  "set_first6 rigid_params movpar = map2 (\<lambda>row r. r @ drop 6 row) movpar rigid_params"

text \<open>
  The body of \<open>for i in range(6)\<close>:
  \<^verbatim>\<open>
    movpar[0,6+i]=movpar[0,i]
    movpar[1:,6+i]=movpar[:-1,i]
    movpar[:,12+i]=movpar[:,i]**2
    movpar[:,18+i]=movpar[:,6+i]**2
  \<close>
  \<open>movpar[0,6+i]\<close> raises IndexError on an array without rows.
\<close>

definition motion_step :: "nat \<Rightarrow> real list list \<Rightarrow> py_error + real list list" where
  "motion_step i movpar =
     (if movpar = [] then Inl IndexError
      else
        let m1 = set_cell 0 (6 + i) (movpar ! 0 ! i) movpar;
            m2 = set_column_from 1 (6 + i) (column i (butlast m1)) m1;
            m3 = set_column_from 0 (12 + i) (map (\<lambda>v. v ^ 2) (column i m2)) m2;
            m4 = set_column_from 0 (18 + i) (map (\<lambda>v. v ^ 2) (column (6 + i) m3)) m3
        in Inr m4)"

fun motion_loop :: "nat list \<Rightarrow> real list list \<Rightarrow> py_error + real list list" where
  "motion_loop [] movpar = Inr movpar"
| "motion_loop (i # is) movpar =
     (case motion_step i movpar of
        Inl e \<Rightarrow> Inl e
      | Inr movpar' \<Rightarrow> motion_loop is movpar')"

definition motion_24_params :: "real list list \<Rightarrow> py_error + real list list" where
  "motion_24_params rigid_params =
     motion_loop [0..<6] (set_first6 rigid_params (zeros2 (length rigid_params) 24))"

text \<open>
  The value the lag columns are specified to hold: the parameter one frame earlier, and
  frame 0's own parameter in frame 0.
\<close>

definition lag :: "real list list \<Rightarrow> nat \<Rightarrow> nat \<Rightarrow> real" where
  "lag m k i = (if k = 0 then m ! 0 ! i else m ! (k - 1) ! i)"

text \<open>The loop invariant of \<open>motion_24_params\<close> after \<open>n\<close> iterations.\<close>

definition motion_inv :: "real list list \<Rightarrow> nat \<Rightarrow> real list list \<Rightarrow> bool" where
  "motion_inv rigid n m \<longleftrightarrow>
     length m = length rigid \<and>
     (\<forall>k<length rigid. length (m ! k) = 24
        \<and> (\<forall>j<6. m ! k ! j = rigid ! k ! j)
        \<and> (\<forall>i<n. m ! k ! (6 + i) = lag rigid k i
               \<and> m ! k ! (12 + i) = (rigid ! k ! i) ^ 2
               \<and> m ! k ! (18 + i) = (lag rigid k i) ^ 2))"

section \<open>confounds.py: ConfoundRegression and write_confound_csv\<close>

text \<open>Python's \<open>str\<close> on a non-negative integer.\<close>

function str_nat :: "nat \<Rightarrow> string" where
  "str_nat n = (if n < 10 then [''0123456789'' ! n]
                else str_nat (n div 10) @ [''0123456789'' ! (n mod 10)])"
  by pat_completeness auto
termination
  by (relation "measure id") auto

declare str_nat.simps [simp del]

text \<open>
  The number a string of decimal digits denotes: the inverse of \<open>str\<close>, by which
  different numbers get different file names.
\<close>

definition digit_of :: "char \<Rightarrow> nat" where
  "digit_of c = length (takeWhile (\<lambda>d. d \<noteq> c) ''0123456789'')"

definition nat_of_str :: "string \<Rightarrow> nat" where
  "nat_of_str s = foldl (\<lambda>a c. 10 * a + digit_of c) 0 s"

text \<open>
  \<open>np.transpose(np.asarray(confounds))\<close> for the list \<open>confounds\<close> of one-dimensional
  arrays, which holds \<open>WM_signal\<close> at least. The array has one column per element of
  \<open>confounds\<close>; \<open>np.asarray\<close> raises ValueError on arrays of different lengths.
\<close>

record array2 =
  shape0 :: nat
  shape1 :: nat
  rows :: "real list list"

definition asarray_transposed :: "real list list \<Rightarrow> py_error + array2" where
  "asarray_transposed confounds =
     (if \<forall>c\<in>set confounds. length c = length (hd confounds)
      then Inr \<lparr>shape0 = length (hd confounds), shape1 = length confounds,
                rows = map (\<lambda>k. map (\<lambda>c. c ! k) confounds) [0..<length (hd confounds)]\<rparr>
      else Inl ValueError)"

text \<open>
  \<open>write_confound_csv\<close>: \<open>df.columns=column_names\<close> raises ValueError unless there are
  as many names as the frame has columns. The result is the table written to the file
  (the file's path is left out).
\<close>

record dataframe =
  columns :: "string list"
  cells :: "real list list"

definition write_confound_csv :: "array2 \<Rightarrow> string list \<Rightarrow> py_error + dataframe" where
  "write_confound_csv confound_array column_names =
     (if length column_names \<noteq> shape1 confound_array then Inl ValueError
      else Inr \<lparr>columns = column_names, cells = rows confound_array\<rparr>)"

text \<open>
  \<open>[m[:,param] for param in range(m.shape[1])]\<close>, for an array with at least one row.
\<close>

definition columns_of :: "real list list \<Rightarrow> real list list" where
  "columns_of m = map (\<lambda>param. column param m) [0..<length (hd m)]"

definition comp_column :: "string \<Rightarrow> nat \<Rightarrow> string list" where
  "comp_column prefix num_comp = map (\<lambda>comp. prefix @ str_nat (comp + 1)) [0..<num_comp]"

definition motion_columns :: "string list" where
  "motion_columns =
     [''mov1-1'', ''mov2-1'', ''mov3-1'', ''rot1-1'', ''rot2-1'', ''rot3-1'',
      ''mov1^2'', ''mov2^2'', ''mov3^2'', ''rot1^2'', ''rot2^2'', ''rot3^2'',
      ''mov1-1^2'', ''mov2-1^2'', ''mov3-1^2'', ''rot1-1^2'', ''rot2-1^2'', ''rot3-1^2'']"

text \<open>
  The list \<open>confounds\<close> and the list \<open>csv_columns\<close> that
  \<open>ConfoundRegression._run_interface\<close> builds, in the order it appends to them.
\<close>

definition build_confounds ::
  "real list \<Rightarrow> real list list \<Rightarrow> real list \<Rightarrow> real list list \<Rightarrow> real list
     \<Rightarrow> real list list \<Rightarrow> real list list" where
  "build_confounds WM_signal WM_aCompCor CSF_signal CSF_aCompCor global_signal motion_24 =
     [WM_signal] @ columns_of WM_aCompCor @ [CSF_signal] @ columns_of CSF_aCompCor
       @ [global_signal] @ columns_of motion_24"

definition build_csv_columns :: "nat \<Rightarrow> nat \<Rightarrow> string list" where
  "build_csv_columns num_comp_WM num_comp_CSF =
     [''WM_signal''] @ comp_column ''WM_comp'' num_comp_WM @ [''CSF_signal'']
       @ comp_column ''CSF_comp'' num_comp_CSF @ [''global_signal''] @ motion_columns"

text \<open>
  \<open>ConfoundRegression._run_interface\<close>. The three mask traces (\<open>extract_mask_trace\<close>,
  nilearn) and the inputs of the two \<open>compute_aCompCor\<close> calls are given;
  \<open>filename_template\<close> is \<open>None\<close> when the name of the bold file lacks \<open>_ses-\<close> or
  \<open>_run-\<close>, where the indexing of the split name raises IndexError.
\<close>

definition ConfoundRegression_run_interface ::
  "string option \<Rightarrow> string \<Rightarrow> real list \<Rightarrow> real list \<Rightarrow> (nat \<Rightarrow> py_error + real list list)
     \<Rightarrow> real list \<Rightarrow> real list \<Rightarrow> (nat \<Rightarrow> py_error + real list list)
     \<Rightarrow> real list \<Rightarrow> real list list \<Rightarrow> py_error + dataframe" where
  "ConfoundRegression_run_interface filename_template aCompCor_method
       WM_signal WM_variance WM_PCA CSF_signal CSF_variance CSF_PCA global_signal rigid_params =
     (case filename_template of
        None \<Rightarrow> Inl IndexError
      | Some _ \<Rightarrow>
     (case compute_aCompCor aCompCor_method WM_variance WM_PCA of
        Inl e \<Rightarrow> Inl e
      | Inr (WM_aCompCor, num_comp_WM) \<Rightarrow>
     (case compute_aCompCor aCompCor_method CSF_variance CSF_PCA of
        Inl e \<Rightarrow> Inl e
      | Inr (CSF_aCompCor, num_comp_CSF) \<Rightarrow>
     (case motion_24_params rigid_params of
        Inl e \<Rightarrow> Inl e
      | Inr motion_24 \<Rightarrow>
     (case asarray_transposed
             (build_confounds WM_signal WM_aCompCor CSF_signal CSF_aCompCor
                global_signal motion_24) of
        Inl e \<Rightarrow> Inl e
      | Inr confound_array \<Rightarrow>
          write_confound_csv confound_array
            (build_csv_columns num_comp_WM num_comp_CSF))))))"

section \<open>utils.py: split_volumes\<close>

text \<open>
  Image data (\<open>in_nii.dataobj\<close>) is a nested list in the order of the array's axes:
  \<open>d ! i ! j ! k ! t\<close> is the voxel \<open>(i, j, k)\<close> of frame \<open>t\<close>. The dimensions of a
  NIfTI image are positive, so the shape of an array is read off its first elements.
  Of an image whose rank is neither 4 nor 5 only the shape is kept, since that is all
  \<open>split_volumes\<close> reads of it: \<open>OtherRank s\<close> stands for an image of shape \<open>s\<close>.
  The affine is copied unchanged by every function and is left out. Of the header
  only its effect on stored data is kept, see \<open>Merge\<close> below.
\<close>

type_synonym arr3 = "real list list list"
type_synonym arr4 = "real list list list list"
type_synonym arr5 = "real list list list list list"

datatype image = Rank4 arr4 | Rank5 arr5 | OtherRank "nat list"

fun shape :: "image \<Rightarrow> nat list" where
  "shape (Rank4 d) = [length d, length (hd d), length (hd (hd d)), length (hd (hd (hd d)))]"
| "shape (Rank5 d) = [length d, length (hd d), length (hd (hd d)), length (hd (hd (hd d))),
                      length (hd (hd (hd (hd d))))]"
| "shape (OtherRank s) = s"

text \<open>The files \<open>split_volumes\<close> writes hold a 3-D array (from rank 4) or a 4-D one.\<close>

datatype volume = Vol3 arr3 | Vol4 arr4

text \<open>\<open>dataobj[:, :, :, x]\<close> on rank 4 and \<open>dataobj[:, :, :, x, :]\<close> on rank 5.\<close>

definition index_axis3 :: "nat \<Rightarrow> 'a list list list list \<Rightarrow> 'a list list list" where
  "index_axis3 x d = map (map (map (\<lambda>v. v ! x))) d"

text \<open>\<open>output_prefix + "vol" + str(x) + ".nii.gz"\<close>, relative to the working directory.\<close>

definition vol_fname :: "string \<Rightarrow> nat \<Rightarrow> string" where
  "vol_fname output_prefix x = output_prefix @ ''vol'' @ str_nat x @ ''.nii.gz''"

text \<open>
  \<open>split_volumes\<close>. It reads \<open>in_nii.shape[3]\<close> before it tests the rank, which raises
  IndexError below rank 4; for a rank other than 4 and 5 it prints a message and
  returns \<open>None\<close>. Each written file is the pair of its name and the array handed
  to \<open>to_filename\<close> under the header of \<open>in_nii\<close>. The
  branch of \<open>OtherRank\<close> under the two rank tests is never reached by an image whose
  rank is neither 4 nor 5.
\<close>

definition split_volumes ::
  "image \<Rightarrow> string \<Rightarrow> py_error + ((string \<times> volume) list \<times> nat) option" where
  "split_volumes in_nii output_prefix =
     (let num_dimensions = length (shape in_nii) in
      if num_dimensions < 4 then Inl IndexError
      else
        let num_volumes = shape in_nii ! 3 in
        if num_dimensions \<noteq> 4 \<and> num_dimensions \<noteq> 5 then Inr None
        else Inr (Some
          (case in_nii of
             Rank4 d \<Rightarrow>
               map (\<lambda>x. (vol_fname output_prefix x, Vol3 (index_axis3 x d))) [0..<num_volumes]
           | Rank5 d \<Rightarrow>
               map (\<lambda>x. (vol_fname output_prefix x, Vol4 (index_axis3 x d))) [0..<num_volumes]
           | OtherRank s \<Rightarrow> [],
           num_volumes)))"

section \<open>utils.py: Merge\<close>

definition zeros4 :: "nat \<Rightarrow> nat \<Rightarrow> nat \<Rightarrow> nat \<Rightarrow> arr4" where
  "zeros4 X Y Z n = replicate X (replicate Y (replicate Z (replicate n 0)))"

text \<open>
  numpy's broadcasting of the assigned value along one axis: the source has the
  target's length, or length 1 and is repeated; otherwise the assignment raises
  ValueError (\<open>None\<close>).
\<close>

definition broadcast :: "nat \<Rightarrow> 'a list \<Rightarrow> 'a list option" where
  "broadcast n xs =
     (if length xs = n then Some xs
      else if length xs = 1 then Some (replicate n (hd xs))
      else None)"

definition broadcast3 :: "nat \<Rightarrow> nat \<Rightarrow> nat \<Rightarrow> arr3 \<Rightarrow> arr3 option" where
  "broadcast3 X Y Z v =
     Option.bind (broadcast X v) (\<lambda>v1.
       those (map (\<lambda>p. Option.bind (broadcast Y p) (\<lambda>p1. those (map (broadcast Z) p1))) v1))"

text \<open>
  The value \<open>nb.load(file).dataobj[:,:,:]\<close> as it is assigned to the 3-D target
  \<open>combined[:,:,:,i]\<close>. A 4-D source is accepted only with a leading axis of length 1,
  which numpy strips before it broadcasts.
\<close>

fun assigned_value :: "nat \<Rightarrow> nat \<Rightarrow> nat \<Rightarrow> volume \<Rightarrow> arr3 option" where
  "assigned_value X Y Z (Vol3 v) = broadcast3 X Y Z v"
| "assigned_value X Y Z (Vol4 v) = (if length v = 1 then broadcast3 X Y Z (hd v) else None)"

text \<open>\<open>combined[:,:,:,i] = src\<close>, for \<open>src\<close> of the target's shape.\<close>

definition assign_frame :: "nat \<Rightarrow> arr3 \<Rightarrow> arr4 \<Rightarrow> arr4" where
  "assign_frame i src combined = map2 (map2 (map2 (\<lambda>c v. c[i := v]))) combined src"

fun merge_loop ::
  "nat \<Rightarrow> nat \<Rightarrow> nat \<Rightarrow> volume list \<Rightarrow> nat \<Rightarrow> arr4 \<Rightarrow> py_error + (arr4 \<times> nat)" where
  "merge_loop X Y Z [] i combined = Inr (combined, i)"
| "merge_loop X Y Z (file # files) i combined =
     (case assigned_value X Y Z file of
        None \<Rightarrow> Inl ValueError
      | Some src \<Rightarrow> merge_loop X Y Z files (i + 1) (assign_frame i src combined))"

text \<open>\<open>img.shape[0]\<close>, \<open>img.shape[1]\<close>, \<open>img.shape[2]\<close> of a written volume.\<close>

fun volume_shape3 :: "volume \<Rightarrow> nat \<times> nat \<times> nat" where
  "volume_shape3 (Vol3 v) = (length v, length (hd v), length (hd (hd v)))"
| "volume_shape3 (Vol4 v) = (length v, length (hd v), length (hd (hd v)))"

text \<open>
  Files and headers. \<open>nb.Nifti1Image(data, affine, header).to_filename(f)\<close> stores
  \<open>data\<close> in the data type of \<open>header\<close>: nibabel converts the array, and rescales a
  float array that is written under an integer type, so what \<open>nb.load(f).dataobj\<close>
  reads back need not be \<open>data\<close>. The conversion is nibabel's and is the parameter
  \<open>on_disk\<close> of the functions below: \<open>on_disk header data\<close> is the array read back from
  a file written from \<open>data\<close> under \<open>header\<close>. Headers are of any type \<open>'h\<close>.

  The arrays \<open>nb.load(file).dataobj\<close> of the files \<open>split_volumes\<close> wrote under the
  header of its input, in the order of its list.
\<close>

definition load_volumes ::
  "('h \<Rightarrow> volume \<Rightarrow> volume) \<Rightarrow> 'h \<Rightarrow> (string \<times> volume) list \<Rightarrow> volume list" where
  "load_volumes on_disk header volumes = map (\<lambda>(fname, data). on_disk header data) volumes"

text \<open>
  \<open>Merge._run_interface\<close> on the loaded \<open>in_files\<close> and the header of
  \<open>header_source\<close>. nipype refuses an empty list for the mandatory input \<open>in_files\<close>
  before the interface runs (ValueError). \<open>filename_template\<close> is \<open>None\<close> when the name
  of \<open>header_source\<close> lacks \<open>_ses-\<close> or \<open>_run-\<close> (IndexError). \<open>combined\<close> is a float64
  array (\<open>np.zeros\<close>) and is written under the header of \<open>header_source\<close>: the result
  is the array read back from the written file, or \<open>None\<close> for the \<open>return None\<close>
  after the count test.
\<close>

definition Merge_run_interface ::
  "('h \<Rightarrow> volume \<Rightarrow> volume) \<Rightarrow> volume list \<Rightarrow> 'h \<Rightarrow> string option
     \<Rightarrow> py_error + volume option" where
  "Merge_run_interface on_disk in_files header filename_template =
     (case in_files of
        [] \<Rightarrow> Inl ValueError
      | img # _ \<Rightarrow>
     (case filename_template of
        None \<Rightarrow> Inl IndexError
      | Some _ \<Rightarrow>
          (case volume_shape3 img of (X, Y, Z) \<Rightarrow>
             (case merge_loop X Y Z in_files 0 (zeros4 X Y Z (length in_files)) of
                Inl e \<Rightarrow> Inl e
              | Inr (combined, i) \<Rightarrow>
                  if i \<noteq> length in_files then Inr None
                  else Inr (Some (on_disk header (Vol4 combined)))))))"

text \<open>An array of shape \<open>(X, Y, Z, T)\<close>.\<close>

definition is_arr4 :: "nat \<Rightarrow> nat \<Rightarrow> nat \<Rightarrow> nat \<Rightarrow> arr4 \<Rightarrow> bool" where
  "is_arr4 X Y Z T d \<longleftrightarrow>
     length d = X \<and> (\<forall>a\<in>set d. length a = Y \<and> (\<forall>b\<in>set a. length b = Z
       \<and> (\<forall>c\<in>set b. length c = T)))"

section \<open>utils.py: applyTransforms\<close>

text \<open>
  The inputs of one run of the resampler (\<open>ApplyTransforms\<close> of nipype); dimension,
  precision and interpolation are the same in every run and are left out.
\<close>

record at_inputs =
  reference_image :: string
  input_image :: string
  output_image :: string
  transforms :: "string list"

definition warped_vol_fname :: "nat \<Rightarrow> string" where
  "warped_vol_fname x = ''deformed_volume'' @ str_nat (x + 1) @ ''.nii.gz''"

text \<open>
  The loop \<open>for x in range(0, num_volumes)\<close>, with the list \<open>warped_volumes\<close> and the
  list of the runs made so far. \<open>at_run\<close> tells whether a run of the external resampler
  succeeds; a failing run raises. \<open>bold_volumes[x]\<close> raises IndexError out of range.
\<close>

fun resample_loop ::
  "(at_inputs \<Rightarrow> bool) \<Rightarrow> string list \<Rightarrow> string list \<Rightarrow> bool \<Rightarrow> string \<Rightarrow> nat list
     \<Rightarrow> string list \<Rightarrow> at_inputs list \<Rightarrow> py_error + (string list \<times> at_inputs list)" where
  "resample_loop at_run bold_volumes split_xform use_fieldwarp fieldwarp [] warped runs =
     Inr (warped, runs)"
| "resample_loop at_run bold_volumes split_xform use_fieldwarp fieldwarp (x # xs) warped runs =
     (if length bold_volumes \<le> x then Inl IndexError
      else
        let inputs = \<lparr>reference_image = bold_volumes ! 0, input_image = bold_volumes ! x,
                  output_image = warped_vol_fname x,
                  transforms = (if use_fieldwarp then [split_xform ! x, fieldwarp]
                                else [split_xform ! x])\<rparr>
        in if at_run inputs
           then resample_loop at_run bold_volumes split_xform use_fieldwarp fieldwarp xs
                  (warped @ [warped_vol_fname x]) (runs @ [inputs])
           else Inl ExternalToolError)"

text \<open>
  \<open>applyTransforms._run_interface\<close>. Unpacking the \<open>None\<close> that \<open>split_volumes\<close> returns on
  a wrong rank raises TypeError; \<open>num_volumes\<close> is the count of the second split;
  \<open>bold_volumes[0]\<close> raises IndexError on an empty list. The result is \<open>out_files\<close>
  together with the runs of the resampler, in the order they were made.
\<close>

definition applyTransforms_run_interface ::
  "(at_inputs \<Rightarrow> bool) \<Rightarrow> image \<Rightarrow> image \<Rightarrow> bool \<Rightarrow> string
     \<Rightarrow> py_error + (string list \<times> at_inputs list)" where
  "applyTransforms_run_interface at_run in_file xforms use_fieldwarp fieldwarp =
     (case split_volumes in_file ''bold_'' of
        Inl e \<Rightarrow> Inl e
      | Inr None \<Rightarrow> Inl TypeError
      | Inr (Some (bold, _)) \<Rightarrow>
     (case split_volumes xforms ''xform_'' of
        Inl e \<Rightarrow> Inl e
      | Inr None \<Rightarrow> Inl TypeError
      | Inr (Some (xform, num_volumes)) \<Rightarrow>
          if bold = [] then Inl IndexError
          else resample_loop at_run (map fst bold) (map fst xform) use_fieldwarp fieldwarp
                 [0..<num_volumes] [] []))"

section \<open>utils.py: EstimateReferenceImage\<close>

text \<open>\<open>np.median\<close> of a one-dimensional array with at least one element.\<close>

definition median :: "real list \<Rightarrow> real" where
  "median xs =
     (let s = sort xs; n = length s
      in if odd n then s ! (n div 2) else (s ! (n div 2 - 1) + s ! (n div 2)) / 2)"

text \<open>\<open>np.median(d, axis=3)\<close>\<close>

definition median_axis3 :: "arr4 \<Rightarrow> arr3" where
  "median_axis3 d = map (map (map median)) d"

text \<open>\<open>d[:, :, :, a:b]\<close> for \<open>0 \<le> a \<le> b\<close>\<close>

definition slice_axis3 :: "nat \<Rightarrow> nat \<Rightarrow> arr4 \<Rightarrow> arr4" where
  "slice_axis3 a b d = map (map (map (\<lambda>v. take (b - a) (drop a v)))) d"

text \<open>\<open>m.mean(axis=0)\<close> on arrays of rank 2, 3 and 4.\<close>

definition mean_axis0_2 :: "real list list \<Rightarrow> real list" where
  "mean_axis0_2 m =
     map (\<lambda>t. sum_list (map (\<lambda>r. r ! t) m) / real (length m)) [0..<length (hd m)]"

definition mean_axis0_3 :: "arr3 \<Rightarrow> real list list" where
  "mean_axis0_3 m = map (\<lambda>k. mean_axis0_2 (map (\<lambda>p. p ! k) m)) [0..<length (hd m)]"

definition mean_axis0_4 :: "arr4 \<Rightarrow> arr3" where
  "mean_axis0_4 m = map (\<lambda>j. mean_axis0_3 (map (\<lambda>p. p ! j) m)) [0..<length (hd m)]"

text \<open>
  \<open>_get_vols_to_discard\<close>: the mean signal of each of the first 50 frames, handed to
  \<open>is_outlier\<close> of nipype, which is a parameter here.
\<close>

definition get_vols_to_discard :: "(real list \<Rightarrow> nat) \<Rightarrow> arr4 \<Rightarrow> nat" where
  "get_vols_to_discard is_outlier img =
     (let data_slice = slice_axis3 0 50 img;
          global_signal = mean_axis0_2 (mean_axis0_3 (mean_axis0_4 data_slice))
      in is_outlier global_signal)"

text \<open>One run of the external motion-correction solver \<open>antsMotionCorr\<close>.\<close>

record mc_inputs =
  mc_in_file :: arr4
  mc_ref_file :: arr3
  mc_second :: bool

text \<open>\<open>in_nii.shape[-1]\<close>\<close>

definition num_frames :: "arr4 \<Rightarrow> nat" where
  "num_frames d = length (hd (hd (hd d)))"

text \<open>
  The series and the target handed to the first run of the solver when no dummy scan
  was detected (\<open>slice_fname\<close> and \<open>median_fname\<close>).
\<close>

definition initial_target :: "arr4 \<Rightarrow> arr4 \<times> arr3" where
  "initial_target in_nii =
     (let data_slice = slice_axis3 0 50 in_nii in
      if num_frames in_nii > 40
      then (slice_axis3 20 40 data_slice, median_axis3 (slice_axis3 20 40 data_slice))
      else (in_nii, median_axis3 data_slice))"

text \<open>
  \<open>EstimateReferenceImage._run_interface\<close> on a 4-D image. \<open>antsMotionCorr\<close> returns the
  motion-corrected series of a run or raises. The result is the pair of the reference
  image with \<open>n_volumes_to_discard\<close>, or the exception raised, together with the runs
  of the solver made, in order. \<open>filename_template\<close> is \<open>None\<close> when the name of the
  input file lacks \<open>_ses-\<close> or \<open>_run-\<close> (IndexError).
\<close>

definition EstimateReferenceImage_run_interface ::
  "(real list \<Rightarrow> nat) \<Rightarrow> (mc_inputs \<Rightarrow> py_error + arr4) \<Rightarrow> arr4 \<Rightarrow> string option
     \<Rightarrow> (py_error + (arr3 \<times> nat)) \<times> mc_inputs list" where
  "EstimateReferenceImage_run_interface is_outlier antsMotionCorr in_nii filename_template =
     (let data_slice = slice_axis3 0 50 in_nii;
          n_volumes_to_discard = get_vols_to_discard is_outlier in_nii
      in case filename_template of
           None \<Rightarrow> (Inl IndexError, [])
         | Some _ \<Rightarrow>
             if n_volumes_to_discard = 0 then
               (case initial_target in_nii of (slice, median0) \<Rightarrow>
                  let run1 = \<lparr>mc_in_file = slice, mc_ref_file = median0, mc_second = False\<rparr>
                  in case antsMotionCorr run1 of
                       Inl e \<Rightarrow> (Inl e, [run1])
                     | Inr corrected1 \<Rightarrow>
                         let run2 = \<lparr>mc_in_file = slice,
                                      mc_ref_file = median_axis3 corrected1, mc_second = True\<rparr>
                         in case antsMotionCorr run2 of
                              Inl e \<Rightarrow> (Inl e, [run1, run2])
                            | Inr corrected2 \<Rightarrow>
                                (Inr (median_axis3 corrected2, 0), [run1, run2]))
             else
               (Inr (median_axis3 (slice_axis3 0 n_volumes_to_discard data_slice),
                     n_volumes_to_discard), []))"

section \<open>Properties of compute_aCompCor\<close>

lemma aCompCor_while_least:
  assumes "cum_var = sum_list (take k ev)" and "k \<le> length ev"
    and "\<forall>m<k. sum_list (take m ev) \<le> 1 / 2"
    and "\<exists>n\<le>length ev. 1 / 2 < sum_list (take n ev)"
  shows "\<exists>n. aCompCor_while ev cum_var k = Inr n \<and> n \<le> length ev
           \<and> 1 / 2 < sum_list (take n ev) \<and> (\<forall>m<n. sum_list (take m ev) \<le> 1 / 2)"
  using assms
proof (induction ev cum_var k rule: aCompCor_while.induct)
  case (1 ev cum_var k)
  show ?case
  proof (cases "cum_var \<le> 1 / 2")
    case False
    then have "aCompCor_while ev cum_var k = Inr k"
      by (subst aCompCor_while.simps) simp
    with False "1.prems"(1,2,3) show ?thesis by simp
  next
    case low: True
    show ?thesis
    proof (cases "k < length ev")
      case True
      have step: "cum_var + ev ! k = sum_list (take (Suc k) ev)"
        using True "1.prems"(1) by (simp add: take_Suc_conv_app_nth)
      have below: "\<forall>m<Suc k. sum_list (take m ev) \<le> 1 / 2"
        using "1.prems"(1,3) low by (auto simp: less_Suc_eq)
      have unfold: "aCompCor_while ev cum_var k = aCompCor_while ev (cum_var + ev ! k) (Suc k)"
        using low True by (subst aCompCor_while.simps) simp
      from "1.IH" [OF low True step _ below "1.prems"(4)] True show ?thesis
        unfolding unfold by simp
    next
      case False
      with "1.prems"(2) have "k = length ev" by simp
      with "1.prems"(1,3) low have "\<forall>m\<le>length ev. sum_list (take m ev) \<le> 1 / 2"
        by (auto simp: le_less)
      with "1.prems"(4) show ?thesis by force
    qed
  qed
qed

text \<open>
  C3. Under \<open>'50%'\<close> the function selects the least number of leading components whose
  cumulative explained-variance ratio strictly exceeds 0.5 (the crossing component
  included) and refits with exactly that count; under \<open>'first_5'\<close> the count is 5 and
  the refit is asked for 5 components, whatever the variance ratios are.
\<close>

theorem compute_aCompCor_selection:
  assumes "\<exists>n\<le>length ev. 1 / 2 < sum_list (take n ev)"
  shows "(\<exists>n. n \<le> length ev \<and> 1 / 2 < sum_list (take n ev)
            \<and> (\<forall>m<n. sum_list (take m ev) \<le> 1 / 2)
            \<and> compute_aCompCor ''50%'' ev pca =
                (case pca n of Inl e \<Rightarrow> Inl e | Inr c \<Rightarrow> Inr (c, n)))
       \<and> compute_aCompCor ''first_5'' ev' pca =
           (case pca 5 of Inl e \<Rightarrow> Inl e | Inr c \<Rightarrow> Inr (c, 5))"
proof -
  from aCompCor_while_least [of 0 0 ev] assms
  obtain n where n: "aCompCor_while ev 0 0 = Inr n" "n \<le> length ev"
    "1 / 2 < sum_list (take n ev)" "\<forall>m<n. sum_list (take m ev) \<le> 1 / 2"
    by auto
  have "compute_aCompCor ''50%'' ev pca =
          (case pca n of Inl e \<Rightarrow> Inl e | Inr c \<Rightarrow> Inr (c, n))"
    by (simp add: compute_aCompCor_def assign_num_comp_def n(1))
  moreover have "compute_aCompCor ''first_5'' ev' pca =
          (case pca 5 of Inl e \<Rightarrow> Inl e | Inr c \<Rightarrow> Inr (c, 5))"
    by (simp add: compute_aCompCor_def assign_num_comp_def)
  ultimately show ?thesis using n(2,3,4) by blast
qed

theorem compute_aCompCor_selection_witness:
  "compute_aCompCor ''50%'' [2 / 5, 3 / 10, 1 / 5, 1 / 10] (\<lambda>n. Inr (n :: nat))
     = Inr (2, 2)
   \<and> compute_aCompCor ''first_5'' [9 / 10, 1 / 10] (\<lambda>n. Inr (n :: nat)) = Inr (5, 5)"
proof -
  let ?ev = "[2 / 5, 3 / 10, 1 / 5, 1 / 10] :: real list"
  have h: "\<exists>n\<le>length ?ev. 1 / 2 < sum_list (take n ?ev)"
    by (rule exI [of _ 2]) simp
  from compute_aCompCor_selection [OF h, of "\<lambda>n. Inr n" "[9 / 10, 1 / 10]"]
  obtain n where n: "1 / 2 < sum_list (take n ?ev)"
      "\<forall>m<n. sum_list (take m ?ev) \<le> 1 / 2"
      "compute_aCompCor ''50%'' ?ev (\<lambda>n. Inr n) = Inr (n, n)"
    and five: "compute_aCompCor ''first_5'' [9 / 10, 1 / 10] (\<lambda>n. Inr (n :: nat)) = Inr (5, 5)"
    by auto
  have "\<not> n < 2"
  proof
    assume "n < 2"
    then have "n = 0 \<or> n = 1" by auto
    with n(1) show False by auto
  qed
  moreover have "\<not> 2 < n"
  proof
    assume "2 < n"
    with n(2) have "sum_list (take 2 ?ev) \<le> 1 / 2" by blast
    then show False by simp
  qed
  ultimately have "n = 2" by simp
  with n(3) five show ?thesis by simp
qed

text \<open>
  C10. With a method string other than \<open>'50%'\<close> and \<open>'first_5'\<close> neither branch
  assigns \<open>num_comp\<close>, and the function raises UnboundLocalError when it reads it: no
  default policy applies and the refit is never reached.
\<close>

theorem compute_aCompCor_unknown_method:
  assumes "method \<noteq> ''50%''" and "method \<noteq> ''first_5''"
  shows "compute_aCompCor method ev pca = Inl UnboundLocalError"
  using assms by (simp add: compute_aCompCor_def assign_num_comp_def)

theorem compute_aCompCor_unknown_method_witness:
  "''first_10'' \<noteq> ''50%'' \<and> ''first_10'' \<noteq> ''first_5''
   \<and> compute_aCompCor ''first_10'' [3 / 5, 2 / 5] (\<lambda>n. Inr (n :: nat)) = Inl UnboundLocalError"
proof -
  have a: "''first_10'' \<noteq> ''50%''" and b: "''first_10'' \<noteq> ''first_5''" by simp_all
  from compute_aCompCor_unknown_method [OF a b, of "[3 / 5, 2 / 5]" "\<lambda>n. Inr n"] a b
  show ?thesis by simp
qed

section \<open>Properties of motion_24_params\<close>

lemma set_column_from_length:
  "length vs = length m - lo \<Longrightarrow> length (set_column_from lo j vs m) = length m"
  by (simp add: set_column_from_def)

lemma set_column_from_nth:
  assumes "length vs = length m - lo" and "k < length m"
  shows "set_column_from lo j vs m ! k = (if k < lo then m ! k else (m ! k)[j := vs ! (k - lo)])"
  using assms by (auto simp: set_column_from_def nth_append)

lemma motion_step_rows:
  assumes ne: "m \<noteq> []" and len: "\<forall>k<length m. length (m ! k) = 24" and i: "i < 6"
  shows "\<exists>m'. motion_step i m = Inr m' \<and> length m' = length m
          \<and> (\<forall>k<length m. m' ! k =
                (m ! k)[6 + i := lag m k i, 12 + i := (m ! k ! i) ^ 2, 18 + i := (lag m k i) ^ 2])"
proof -
  define m1 where "m1 = set_cell 0 (6 + i) (m ! 0 ! i) m"
  define m2 where "m2 = set_column_from 1 (6 + i) (column i (butlast m1)) m1"
  define m3 where "m3 = set_column_from 0 (12 + i) (map (\<lambda>v. v ^ 2) (column i m2)) m2"
  define m4 where "m4 = set_column_from 0 (18 + i) (map (\<lambda>v. v ^ 2) (column (6 + i) m3)) m3"
  have run: "motion_step i m = Inr m4"
    using ne by (simp add: motion_step_def Let_def m1_def m2_def m3_def m4_def)
  have l1: "length m1 = length m" by (simp add: m1_def set_cell_def)
  have r1: "m1 ! k = (if k = 0 then (m ! 0)[6 + i := m ! 0 ! i] else m ! k)" if "k < length m" for k
    using that by (auto simp: m1_def set_cell_def)
  have l2: "length m2 = length m"
    unfolding m2_def by (rule trans [OF set_column_from_length]) (simp_all add: column_def l1)
  have r2: "m2 ! k = (m ! k)[6 + i := lag m k i]" if k: "k < length m" for k
  proof -
    have "m2 ! k = (if k < 1 then m1 ! k else (m1 ! k)[6 + i := column i (butlast m1) ! (k - 1)])"
      unfolding m2_def using k by (intro set_column_from_nth) (simp_all add: column_def l1)
    moreover have "column i (butlast m1) ! (k - 1) = m ! (k - 1) ! i" if "0 < k"
      using that k len by (auto simp: column_def nth_butlast l1 r1)
    ultimately show ?thesis using k by (auto simp: r1 lag_def)
  qed
  have l3: "length m3 = length m"
    unfolding m3_def by (rule trans [OF set_column_from_length]) (simp_all add: column_def l2)
  have r3: "m3 ! k = (m ! k)[6 + i := lag m k i, 12 + i := (m ! k ! i) ^ 2]"
    if k: "k < length m" for k
  proof -
    have "m3 ! k = (if k < 0 then m2 ! k
                    else (m2 ! k)[12 + i := map (\<lambda>v. v ^ 2) (column i m2) ! (k - 0)])"
      unfolding m3_def using k by (intro set_column_from_nth) (simp_all add: column_def l2)
    then show ?thesis using k len by (simp add: column_def l2 r2)
  qed
  have l4: "length m4 = length m"
    unfolding m4_def by (rule trans [OF set_column_from_length]) (simp_all add: column_def l3)
  have r4: "m4 ! k = (m ! k)[6 + i := lag m k i, 12 + i := (m ! k ! i) ^ 2,
                           18 + i := (lag m k i) ^ 2]"
    if k: "k < length m" for k
  proof -
    have "m4 ! k = (if k < 0 then m3 ! k
                    else (m3 ! k)[18 + i := map (\<lambda>v. v ^ 2) (column (6 + i) m3) ! (k - 0)])"
      unfolding m4_def using k by (intro set_column_from_nth) (simp_all add: column_def l3)
    then show ?thesis using k len i by (simp add: column_def l3 r3)
  qed
  from run l4 r4 show ?thesis by blast
qed

lemma motion_inv_init:
  assumes "\<forall>r\<in>set rigid. length r = 6"
  shows "motion_inv rigid 0 (set_first6 rigid (zeros2 (length rigid) 24))"
  using assms by (auto simp: motion_inv_def set_first6_def zeros2_def nth_append)

lemma motion_inv_step:
  assumes inv: "motion_inv rigid n m" and ne: "rigid \<noteq> []" and n: "n < 6"
  shows "\<exists>m'. motion_step n m = Inr m' \<and> motion_inv rigid (Suc n) m'"
proof -
  from inv have lm: "length m = length rigid" and
    rows: "\<forall>k<length m. length (m ! k) = 24" by (simp_all add: motion_inv_def)
  from lm ne have "m \<noteq> []" by auto
  from motion_step_rows [OF this rows n] obtain m' where
    run: "motion_step n m = Inr m'" and l': "length m' = length m" and
    r': "\<forall>k<length m. m' ! k =
           (m ! k)[6 + n := lag m k n, 12 + n := (m ! k ! n) ^ 2, 18 + n := (lag m k n) ^ 2]"
    by blast
  have lag_eq: "lag m k n = lag rigid k n" if "k < length rigid" for k
    using that inv n by (auto simp: lag_def motion_inv_def)
  have "motion_inv rigid (Suc n) m'"
    unfolding motion_inv_def
  proof (intro conjI allI impI)
    show "length m' = length rigid" using l' lm by simp
  next
    fix k assume k: "k < length rigid"
    with r' lm have row: "m' ! k =
      (m ! k)[6 + n := lag rigid k n, 12 + n := (rigid ! k ! n) ^ 2, 18 + n := (lag rigid k n) ^ 2]"
      using inv n by (simp add: lag_eq motion_inv_def)
    from inv k have len: "length (m ! k) = 24" by (simp add: motion_inv_def)
    show "length (m' ! k) = 24" by (simp add: row len)
    { fix j :: nat assume "j < 6"
      with inv k n show "m' ! k ! j = rigid ! k ! j"
        by (simp add: row motion_inv_def) }
    { fix i assume i: "i < Suc n"
      from inv k have old: "\<forall>i<n. m ! k ! (6 + i) = lag rigid k i
               \<and> m ! k ! (12 + i) = (rigid ! k ! i) ^ 2
               \<and> m ! k ! (18 + i) = (lag rigid k i) ^ 2" by (simp add: motion_inv_def)
      show "m' ! k ! (6 + i) = lag rigid k i"
        using i n old len by (cases "i = n") (simp_all add: row)
      show "m' ! k ! (12 + i) = (rigid ! k ! i) ^ 2"
        using i n old len by (cases "i = n") (simp_all add: row)
      show "m' ! k ! (18 + i) = (lag rigid k i) ^ 2"
        using i n old len by (cases "i = n") (simp_all add: row) }
  qed
  with run show ?thesis by blast
qed

lemma motion_loop_inv:
  assumes "motion_inv rigid n m" and "rigid \<noteq> []" and "n \<le> 6"
  shows "\<exists>m'. motion_loop [n..<6] m = Inr m' \<and> motion_inv rigid 6 m'"
  using assms
proof (induction "6 - n" arbitrary: n m)
  case 0
  then show ?case by simp
next
  case (Suc d)
  then have n: "n < 6" by simp
  from motion_inv_step [OF Suc.prems(1,2) n] obtain m1 where
    m1: "motion_step n m = Inr m1" "motion_inv rigid (Suc n) m1" by blast
  have d: "d = 6 - Suc n" using Suc.hyps(2) by simp
  have "Suc n \<le> 6" using n by simp
  from Suc.hyps(1) [OF d m1(2) Suc.prems(2) this]
  obtain m' where "motion_loop [Suc n..<6] m1 = Inr m'" "motion_inv rigid 6 m'" by blast
  with m1(1) n show ?case by (simp add: upt_conv_Cons)
qed

lemma motion_24_params_inv:
  assumes "rigid \<noteq> []" and "\<forall>r\<in>set rigid. length r = 6"
  shows "\<exists>m'. motion_24_params rigid = Inr m' \<and> motion_inv rigid 6 m'"
  using motion_loop_inv [OF motion_inv_init [OF assms(2)] assms(1)]
  by (simp add: motion_24_params_def)

text \<open>
  C1, as the code has it: for \<open>t \<ge> 1\<close> frames of 6 parameters the result has \<open>t\<close> rows
  of 24 columns; columns 0-5 are the raw parameters, columns 6-11 the parameters of the
  frame before (frame 0's own in row 0), columns 12-17 the squares of the raw
  parameters and columns 18-23 the squares of the lagged ones.
\<close>

theorem motion_24_params_table:
  assumes "rigid \<noteq> []" and "\<forall>r\<in>set rigid. length r = 6"
  shows "\<exists>movpar. motion_24_params rigid = Inr movpar
           \<and> length movpar = length rigid
           \<and> (\<forall>k<length rigid. length (movpar ! k) = 24
                \<and> (\<forall>i<6. movpar ! k ! i = rigid ! k ! i
                       \<and> movpar ! k ! (6 + i) = (if k = 0 then rigid ! 0 ! i else rigid ! (k - 1) ! i)
                       \<and> movpar ! k ! (12 + i) = (rigid ! k ! i) ^ 2
                       \<and> movpar ! k ! (18 + i) = (movpar ! k ! (6 + i)) ^ 2))"
proof -
  from motion_24_params_inv [OF assms]
  obtain m' where "motion_24_params rigid = Inr m'" and "motion_inv rigid 6 m'"
    by blast
  then show ?thesis by (auto simp: motion_inv_def lag_def)
qed

theorem motion_24_params_table_witness:
  "\<exists>movpar. motion_24_params [[1, 2, 3, 4, 5, 6], [7, 8, 9, 10, 11, 12]] = Inr movpar
     \<and> length movpar = 2 \<and> length (movpar ! 1) = 24
     \<and> movpar ! 1 ! 2 = 9 \<and> movpar ! 1 ! 8 = 3 \<and> movpar ! 0 ! 8 = 3
     \<and> movpar ! 1 ! 14 = 81 \<and> movpar ! 1 ! 20 = 9"
proof -
  let ?rigid = "[[1, 2, 3, 4, 5, 6], [7, 8, 9, 10, 11, 12]] :: real list list"
  have a: "?rigid \<noteq> []" and b: "\<forall>r\<in>set ?rigid. length r = 6" by simp_all
  from motion_24_params_table [OF a b] obtain movpar where
    run: "motion_24_params ?rigid = Inr movpar" and len: "length movpar = length ?rigid" and
    tab: "\<forall>k<length ?rigid. length (movpar ! k) = 24
            \<and> (\<forall>i<6. movpar ! k ! i = ?rigid ! k ! i
                 \<and> movpar ! k ! (6 + i) = (if k = 0 then ?rigid ! 0 ! i else ?rigid ! (k - 1) ! i)
                 \<and> movpar ! k ! (12 + i) = (?rigid ! k ! i) ^ 2
                 \<and> movpar ! k ! (18 + i) = (movpar ! k ! (6 + i)) ^ 2)"
    by blast
  from tab [rule_format, of 1] have r1: "length (movpar ! 1) = 24"
    and c1: "\<forall>i<6. movpar ! 1 ! i = ?rigid ! 1 ! i
                 \<and> movpar ! 1 ! (6 + i) = ?rigid ! 0 ! i
                 \<and> movpar ! 1 ! (12 + i) = (?rigid ! 1 ! i) ^ 2
                 \<and> movpar ! 1 ! (18 + i) = (movpar ! 1 ! (6 + i)) ^ 2"
    by simp_all
  from tab [rule_format, of 0] have c0: "\<forall>i<6. movpar ! 0 ! (6 + i) = ?rigid ! 0 ! i"
    by simp
  from c1 [rule_format, of 2] c0 [rule_format, of 2] run len r1 show ?thesis by simp
qed

theorem motion_24_params_no_frames:
  "motion_24_params [] = Inl IndexError"
  by (simp add: motion_24_params_def motion_step_def set_first6_def zeros2_def upt_rec)

section \<open>Properties of ConfoundRegression\<close>

lemma length_comp_column: "length (comp_column prefix n) = n"
  by (simp add: comp_column_def)

lemma length_build_csv_columns:
  "length (build_csv_columns n_WM n_CSF) = n_WM + n_CSF + 21"
  by (simp add: build_csv_columns_def length_comp_column motion_columns_def)

lemma length_build_confounds:
  "length (build_confounds WM_signal WM_aCompCor CSF_signal CSF_aCompCor global_signal motion_24)
     = length (hd WM_aCompCor) + length (hd CSF_aCompCor) + length (hd motion_24) + 3"
  by (simp add: build_confounds_def columns_of_def)

text \<open>
  Whenever each decomposition returns as many columns as it reports components, the
  header has 6 names fewer than the table has columns, and the run ends in the
  ValueError of the column assignment (or in an earlier error): no table is written.
\<close>

lemma ConfoundRegression_never_writes:
  assumes "\<And>n m. WM_PCA n = Inr m \<Longrightarrow> length (hd m) = n"
    and "\<And>n m. CSF_PCA n = Inr m \<Longrightarrow> length (hd m) = n"
    and "\<forall>r\<in>set rigid. length r = 6"
  shows "\<exists>e. ConfoundRegression_run_interface tmpl method WM_signal WM_var WM_PCA
           CSF_signal CSF_var CSF_PCA global_signal rigid = Inl e"
proof (cases "rigid = []")
  case True
  then show ?thesis
    by (auto simp: ConfoundRegression_run_interface_def motion_24_params_def motion_step_def
        set_first6_def zeros2_def upt_rec split: option.splits sum.splits prod.splits)
next
  case False
  from motion_24_params_inv [OF False assms(3)] obtain m24 where
    m24: "motion_24_params rigid = Inr m24" "motion_inv rigid 6 m24" by blast
  with False have w: "length (hd m24) = 24"
    by (cases m24) (auto simp: motion_inv_def dest: spec [of _ 0])
  have comp: "length (hd c) = n" if "compute_aCompCor method v pca = Inr (c, n)"
    and "\<And>n m. pca n = Inr m \<Longrightarrow> length (hd m) = n" for v pca c n
    using that by (auto simp: compute_aCompCor_def split: sum.splits option.splits)
  show ?thesis
  proof (cases tmpl)
    case None
    then show ?thesis by (simp add: ConfoundRegression_run_interface_def)
  next
    case (Some name)
    show ?thesis
    proof (cases "compute_aCompCor method WM_var WM_PCA")
      case (Inl e)
      with Some show ?thesis by (simp add: ConfoundRegression_run_interface_def)
    next
      case wm: (Inr p)
      obtain a n where p: "p = (a, n)" by (cases p)
      from comp [OF wm [unfolded p] assms(1)] have la: "length (hd a) = n" .
      show ?thesis
      proof (cases "compute_aCompCor method CSF_var CSF_PCA")
        case (Inl e)
        with Some wm p show ?thesis by (simp add: ConfoundRegression_run_interface_def)
      next
        case csf: (Inr q)
        obtain b n' where q: "q = (b, n')" by (cases q)
        from comp [OF csf [unfolded q] assms(2)] have lb: "length (hd b) = n'" .
        show ?thesis
          using Some wm p csf q m24(1)
          by (simp add: ConfoundRegression_run_interface_def write_confound_csv_def
              asarray_transposed_def length_build_csv_columns length_build_confounds la lb w)
      qed
    qed
  qed
qed

text \<open>
  C2. The header the builder assembles has 18 motion names for the 24 motion columns,
  so it does not name every column: on two frames with one white-matter and one CSF
  component the table has 29 columns and the header 23 names, and the run ends in the
  ValueError of the column assignment.
\<close>

theorem ConfoundRegression_header_mismatch:
  "length (build_csv_columns 1 1) = 23
   \<and> (case motion_24_params [[1, 2, 3, 4, 5, 6], [7, 8, 9, 10, 11, 12]] of
         Inl e \<Rightarrow> False
       | Inr m24 \<Rightarrow>
           length (build_confounds [1, 2] [[1], [2]] [3, 4] [[5], [6]] [7, 8] m24) = 29)
   \<and> ConfoundRegression_run_interface (Some ''sub-01_ses-1_run-1'') ''50%''
       [1, 2] [3 / 5, 2 / 5] (\<lambda>n. Inr [[1], [2]])
       [3, 4] [3 / 5, 2 / 5] (\<lambda>n. Inr [[5], [6]])
       [7, 8] [[1, 2, 3, 4, 5, 6], [7, 8, 9, 10, 11, 12]] = Inl ValueError"
  by code_simp

section \<open>Properties of split_volumes\<close>

text \<open>
  C8, as the code has it: on an image whose rank is neither 4 nor 5 \<open>split_volumes\<close>
  produces no volumes; above rank 5 it returns \<open>None\<close> without raising, and below
  rank 4 it raises IndexError.
\<close>

theorem split_volumes_wrong_rank:
  assumes "length (shape in_nii) \<noteq> 4" and "length (shape in_nii) \<noteq> 5"
  shows "split_volumes in_nii output_prefix =
           (if length (shape in_nii) < 4 then Inl IndexError else Inr None)"
  using assms by (simp add: split_volumes_def Let_def)

theorem split_volumes_wrong_rank_witness:
  "split_volumes (OtherRank [4, 4, 2, 10, 3, 1, 1]) ''bold_'' = Inr None
   \<and> split_volumes (OtherRank [4, 4, 2]) ''bold_'' = Inl IndexError"
proof -
  have a: "length (shape (OtherRank [4, 4, 2, 10, 3, 1, 1])) \<noteq> 4"
    and b: "length (shape (OtherRank [4, 4, 2, 10, 3, 1, 1])) \<noteq> 5"
    and c: "length (shape (OtherRank [4, 4, 2])) \<noteq> 4"
    and d: "length (shape (OtherRank [4, 4, 2])) \<noteq> 5" by simp_all
  from split_volumes_wrong_rank [OF a b, of "''bold_''"]
    split_volumes_wrong_rank [OF c d, of "''bold_''"]
  show ?thesis by simp
qed

theorem split_volumes_rank6_returns_None:
  "split_volumes (OtherRank [2, 2, 2, 3, 1, 1]) ''bold_'' = Inr None"
  by (simp add: split_volumes_def Let_def)

section \<open>Properties of Merge\<close>

lemma those_map_Some:
  "(\<And>x. x \<in> set xs \<Longrightarrow> f x = Some x) \<Longrightarrow> those (map f xs) = Some xs"
  by (induction xs) simp_all

lemma broadcast_same: "length xs = n \<Longrightarrow> broadcast n xs = Some xs"
  by (simp add: broadcast_def)

lemma broadcast3_same:
  assumes "length v = X" and "\<And>a. a \<in> set v \<Longrightarrow> length a = Y"
    and "\<And>a b. a \<in> set v \<Longrightarrow> b \<in> set a \<Longrightarrow> length b = Z"
  shows "broadcast3 X Y Z v = Some v"
proof -
  have "(\<lambda>p. Option.bind (broadcast Y p) (\<lambda>p1. those (map (broadcast Z) p1))) a = Some a"
    if "a \<in> set v" for a
  proof -
    have "those (map (broadcast Z) a) = Some a"
      by (rule those_map_Some) (simp add: broadcast_same assms(3) [OF that])
    then show ?thesis by (simp add: broadcast_same assms(2) [OF that])
  qed
  then have "those (map (\<lambda>p. Option.bind (broadcast Y p) (\<lambda>p1. those (map (broadcast Z) p1))) v)
               = Some v"
    by (rule those_map_Some)
  then show ?thesis by (simp add: broadcast3_def broadcast_same assms(1))
qed

lemma map2_map_map: "map2 h (map f xs) (map g xs) = map (\<lambda>x. h (f x) (g x)) xs"
  by (induction xs) simp_all

lemma assign_frame_map:
  "assign_frame i (map (map (map g)) d) (map (map (map f)) d)
     = map (map (map (\<lambda>v. (f v)[i := g v]))) d"
  by (simp add: assign_frame_def map2_map_map)

lemma fill_step:
  assumes "i < length v"
  shows "(take i v @ replicate (length v - i) 0)[i := v ! i]
           = take (Suc i) v @ replicate (length v - Suc i) (0::real)"
proof -
  from assms have "replicate (length v - i) (0::real) = 0 # replicate (length v - Suc i) 0"
    by (simp add: Suc_diff_Suc flip: replicate_Suc)
  with assms show ?thesis
    by (simp add: list_update_append take_Suc_conv_app_nth)
qed

lemma merge_loop_frames:
  assumes reg: "is_arr4 X Y Z T d" and i: "i \<le> T"
  shows "merge_loop X Y Z (map (\<lambda>x. Vol3 (index_axis3 x d)) [i..<T]) i
           (map (map (map (\<lambda>v. take i v @ replicate (length v - i) 0))) d)
         = Inr (d, T)"
  using i
proof (induction "T - i" arbitrary: i)
  case 0
  then have "i = T" by simp
  have "map (map (map (\<lambda>v. take T v @ replicate (length v - T) 0))) d = d"
    using reg by (intro map_idI) (simp add: is_arr4_def)
  with \<open>i = T\<close> show ?case by simp
next
  case (Suc n)
  then have lt: "i < T" by simp
  have val: "assigned_value X Y Z (Vol3 (index_axis3 i d)) = Some (index_axis3 i d)"
    using reg by (auto simp: index_axis3_def is_arr4_def intro!: broadcast3_same)
  have leaf: "(take i v @ replicate (T - i) 0)[i := v ! i]
                = take (Suc i) v @ replicate (T - Suc i) (0::real)" if "length v = T" for v
    using fill_step [of i v] lt that by simp
  have next_fill: "assign_frame i (index_axis3 i d)
            (map (map (map (\<lambda>v. take i v @ replicate (length v - i) 0))) d)
          = map (map (map (\<lambda>v. take (Suc i) v @ replicate (length v - Suc i) 0))) d"
    unfolding index_axis3_def assign_frame_map
    using reg by (intro map_cong refl) (simp add: is_arr4_def leaf)
  have "n = T - Suc i" using Suc.hyps(2) by simp
  from Suc.hyps(1) [OF this] lt
  have "merge_loop X Y Z (map (\<lambda>x. Vol3 (index_axis3 x d)) [Suc i..<T]) (Suc i)
           (map (map (map (\<lambda>v. take (Suc i) v @ replicate (length v - Suc i) 0))) d)
         = Inr (d, T)" by simp
  with lt val next_fill show ?case by (simp add: upt_conv_Cons)
qed

lemma zeros4_regular:
  assumes "is_arr4 X Y Z T d"
  shows "zeros4 X Y Z T = map (map (map (\<lambda>v. take 0 v @ replicate (length v - 0) 0))) d"
proof -
  have leaf: "map (\<lambda>v. take 0 v @ replicate (length v - 0) (0::real)) b = replicate Z (replicate T 0)"
    if "a \<in> set d" "b \<in> set a" for a b
  proof -
    have "map (\<lambda>v. take 0 v @ replicate (length v - 0) (0::real)) b = map (\<lambda>v. replicate T 0) b"
      using assms that by (intro map_cong refl) (simp add: is_arr4_def)
    also have "\<dots> = replicate Z (replicate T 0)"
      using assms that by (simp add: map_replicate_const is_arr4_def)
    finally show ?thesis .
  qed
  have mid: "map (map (\<lambda>v. take 0 v @ replicate (length v - 0) (0::real))) a
               = replicate Y (replicate Z (replicate T 0))" if "a \<in> set d" for a
  proof -
    have "map (map (\<lambda>v. take 0 v @ replicate (length v - 0) (0::real))) a
            = map (\<lambda>b. replicate Z (replicate T 0)) a"
      using leaf [OF that] by (intro map_cong refl) simp
    also have "\<dots> = replicate Y (replicate Z (replicate T 0))"
      using assms that by (simp add: map_replicate_const is_arr4_def)
    finally show ?thesis .
  qed
  have "map (map (map (\<lambda>v. take 0 v @ replicate (length v - 0) (0::real)))) d
          = map (\<lambda>a. replicate Y (replicate Z (replicate T 0))) d"
    using mid by (intro map_cong refl) simp
  also have "\<dots> = zeros4 X Y Z T"
    using assms by (simp add: map_replicate_const is_arr4_def zeros4_def)
  finally show ?thesis by simp
qed

lemma shape_regular:
  assumes "is_arr4 X Y Z T d" and "0 < X" and "0 < Y" and "0 < Z"
  shows "shape (Rank4 d) = [X, Y, Z, T]"
proof -
  from assms(1) have lens: "length d = X" "\<And>a. a \<in> set d \<Longrightarrow> length a = Y"
    "\<And>a b. a \<in> set d \<Longrightarrow> b \<in> set a \<Longrightarrow> length b = Z"
    "\<And>a b c. a \<in> set d \<Longrightarrow> b \<in> set a \<Longrightarrow> c \<in> set b \<Longrightarrow> length c = T"
    by (simp_all add: is_arr4_def)
  from lens(1) assms(2) have d: "hd d \<in> set d" by (intro hd_in_set) auto
  from lens(2) [OF d] assms(3) have a: "hd (hd d) \<in> set (hd d)" by (intro hd_in_set) auto
  from lens(3) [OF d a] assms(4) have b: "hd (hd (hd d)) \<in> set (hd (hd d))"
    by (intro hd_in_set) auto
  from lens(1) lens(2) [OF d] lens(3) [OF d a] lens(4) [OF d a b] show ?thesis by simp
qed

lemma Merge_run_interface_Cons:
  assumes "volume_shape3 f = (X, Y, Z)"
    and "merge_loop X Y Z (f # fs) 0 (zeros4 X Y Z (Suc (length fs))) = Inr (c, Suc (length fs))"
  shows "Merge_run_interface on_disk (f # fs) header (Some name)
           = Inr (Some (on_disk header (Vol4 c)))"
  using assms by (simp add: Merge_run_interface_def)

text \<open>
  What the merged file holds for a series of rank 4 whose frames are read back as they
  were written: the data of the series as nibabel stores it under the header.
\<close>

lemma Merge_of_split_stored:
  assumes "is_arr4 X Y Z T d" and "0 < X" and "0 < Y" and "0 < Z" and "0 < T"
    and "\<forall>x<T. on_disk header (Vol3 (index_axis3 x d)) = Vol3 (index_axis3 x d)"
  shows "\<exists>volumes. split_volumes (Rank4 d) output_prefix = Inr (Some (volumes, T))
           \<and> length volumes = T
           \<and> Merge_run_interface on_disk (load_volumes on_disk header volumes) header (Some name)
               = Inr (Some (on_disk header (Vol4 d)))"
proof -
  let ?vols = "map (\<lambda>x. (vol_fname output_prefix x, Vol3 (index_axis3 x d))) [0..<T]"
  have sh: "shape (Rank4 d) = [X, Y, Z, T]" by (rule shape_regular [OF assms(1-4)])
  have split: "split_volumes (Rank4 d) output_prefix = Inr (Some (?vols, T))"
    by (simp add: split_volumes_def Let_def sh [simplified])
  define fs where "fs = map (\<lambda>x. Vol3 (index_axis3 x d)) [0..<T]"
  have loaded: "load_volumes on_disk header ?vols = fs"
    using assms(6) by (simp add: load_volumes_def fs_def comp_def)
  from assms(5) have first: "fs = Vol3 (index_axis3 0 d) # tl fs" and len: "length fs = T"
    by (simp_all add: fs_def upt_conv_Cons)
  from sh assms(2,3) have ne: "d \<noteq> []" "hd d \<noteq> []" by auto
  with sh have vs: "volume_shape3 (Vol3 (index_axis3 0 d)) = (X, Y, Z)"
    by (simp add: index_axis3_def hd_map)
  have loop: "merge_loop X Y Z fs 0 (zeros4 X Y Z T) = Inr (d, T)"
    unfolding zeros4_regular [OF assms(1)] fs_def
    by (rule merge_loop_frames [OF assms(1)]) simp
  from first obtain rest where fs_eq: "fs = Vol3 (index_axis3 0 d) # rest" ..
  from len have T: "T = Suc (length rest)" by (simp add: fs_eq)
  have "Merge_run_interface on_disk (Vol3 (index_axis3 0 d) # rest) header (Some name)
          = Inr (Some (on_disk header (Vol4 d)))"
    using loop unfolding fs_eq T by (rule Merge_run_interface_Cons [OF vs])
  then have "Merge_run_interface on_disk fs header (Some name)
          = Inr (Some (on_disk header (Vol4 d)))"
    by (simp add: fs_eq)
  with split loaded show ?thesis by simp
qed

text \<open>
  C4, as the code has it: for a series of rank 4 with at least one frame whose split
  frames are read back as they were written, merging the volumes that \<open>split_volumes\<close>
  writes, in their order and with the series as header donor, gives the data of the
  series as stored under its header; that is the series itself, voxel for voxel,
  whenever the data type of the header stores the merged float64 array unchanged.
\<close>

theorem merge_split_rank4:
  assumes "is_arr4 X Y Z T d" and "0 < X" and "0 < Y" and "0 < Z" and "0 < T"
    and "\<forall>x<T. on_disk header (Vol3 (index_axis3 x d)) = Vol3 (index_axis3 x d)"
  shows "\<exists>volumes. split_volumes (Rank4 d) output_prefix = Inr (Some (volumes, T))
           \<and> length volumes = T
           \<and> Merge_run_interface on_disk (load_volumes on_disk header volumes) header (Some name)
               = Inr (Some (on_disk header (Vol4 d)))
           \<and> (on_disk header (Vol4 d) = Vol4 d \<longrightarrow>
                Merge_run_interface on_disk (load_volumes on_disk header volumes) header
                  (Some name) = Inr (Some (Vol4 d)))"
proof -
  from Merge_of_split_stored [where on_disk = on_disk and header = header, OF assms,
      of output_prefix name]
  obtain volumes where "split_volumes (Rank4 d) output_prefix = Inr (Some (volumes, T))"
    and "length volumes = T"
    and "Merge_run_interface on_disk (load_volumes on_disk header volumes) header (Some name)
           = Inr (Some (on_disk header (Vol4 d)))"
    by blast
  then show ?thesis by auto
qed

theorem merge_split_rank4_witness:
  "\<exists>volumes. split_volumes (Rank4 [[[[1, 2, 3], [4, 5, 6]]]]) ''bold_'' = Inr (Some (volumes, 3))
     \<and> length volumes = 3
     \<and> Merge_run_interface (\<lambda>header data. data)
         (load_volumes (\<lambda>header data. data) ''float64'' volumes) ''float64''
         (Some ''sub-01_ses-1_run-1'')
         = Inr (Some (Vol4 [[[[1, 2, 3], [4, 5, 6]]]]))"
proof -
  let ?d = "[[[[1, 2, 3], [4, 5, 6]]]] :: arr4"
  let ?on_disk = "\<lambda>(header :: string) (data :: volume). data"
  have a: "is_arr4 1 1 2 3 ?d" by (simp add: is_arr4_def)
  have b: "(0::nat) < 1" and c: "(0::nat) < 2" and d: "(0::nat) < 3" by simp_all
  have e: "\<forall>x<3. ?on_disk ''float64'' (Vol3 (index_axis3 x ?d)) = Vol3 (index_axis3 x ?d)"
    and f: "?on_disk ''float64'' (Vol4 ?d) = Vol4 ?d" by simp_all
  from merge_split_rank4 [where on_disk = ?on_disk and header = "''float64''",
      OF a b b c d e, of "''bold_''" "''sub-01_ses-1_run-1''"] f
  show ?thesis by blast
qed

text \<open>
  On a series of rank 5 the round trip fails, whatever the header: the volumes written
  are 4-D, and the assignment of a 4-D array of shape \<open>(1, 1, 2, 2)\<close> to the 3-D target
  \<open>combined[:,:,:,i]\<close> raises ValueError.
\<close>

theorem merge_split_rank5_fails:
  "(case split_volumes (Rank5 [[[[[1, 2], [3, 4]], [[5, 6], [7, 8]]]]]) ''xform_'' of
      Inr (Some (volumes, num_volumes)) \<Rightarrow>
        num_volumes = 2
        \<and> Merge_run_interface (\<lambda>header data. data)
            (load_volumes (\<lambda>header data. data) ''float64'' volumes) ''float64''
            (Some ''sub-01_ses-1_run-1'') = Inl ValueError
    | _ \<Rightarrow> False)"
  by code_simp

section \<open>Properties of applyTransforms\<close>

lemma digit_of_digit:
  assumes "d < 10"
  shows "digit_of (''0123456789'' ! d) = d"
proof -
  from assms have "d = 0 \<or> d = 1 \<or> d = 2 \<or> d = 3 \<or> d = 4 \<or> d = 5 \<or> d = 6 \<or> d = 7
      \<or> d = 8 \<or> d = 9" by arith
  then show ?thesis by (auto simp: digit_of_def)
qed

lemma nat_of_str_single: "nat_of_str [c] = digit_of c"
  by (simp add: nat_of_str_def)

lemma nat_of_str_snoc: "nat_of_str (s @ [c]) = 10 * nat_of_str s + digit_of c"
  by (simp add: nat_of_str_def)

lemma nat_of_str_str_nat: "nat_of_str (str_nat n) = n"
proof (induction n rule: str_nat.induct)
  case (1 n)
  show ?case
  proof (cases "n < 10")
    case True
    then have "str_nat n = [''0123456789'' ! n]"
      by (subst str_nat.simps) (simp only: if_True)
    then show ?thesis
      by (simp only: nat_of_str_single digit_of_digit [OF True])
  next
    case False
    then have unfold: "str_nat n = str_nat (n div 10) @ [''0123456789'' ! (n mod 10)]"
      by (subst str_nat.simps) (simp only: if_False)
    from "1.IH" False have ih: "nat_of_str (str_nat (n div 10)) = n div 10" by simp
    have d: "digit_of (''0123456789'' ! (n mod 10)) = n mod 10"
      by (rule digit_of_digit) simp
    show ?thesis
      unfolding unfold nat_of_str_snoc ih d by simp
  qed
qed

lemma str_nat_inj:
  assumes "str_nat m = str_nat n"
  shows "m = n"
proof -
  from assms have "nat_of_str (str_nat m) = nat_of_str (str_nat n)" by (rule arg_cong)
  then show ?thesis by (simp only: nat_of_str_str_nat)
qed

lemma vol_fname_inj: "vol_fname prefix x = vol_fname prefix y \<Longrightarrow> x = y"
  by (auto simp: vol_fname_def dest: str_nat_inj)

lemma distinct_vol_fnames: "distinct (map (vol_fname prefix) [0..<n])"
  by (auto simp: distinct_map inj_on_def dest: vol_fname_inj)

lemma bold_xform_fnames: "vol_fname ''bold_'' x \<noteq> vol_fname ''xform_'' y"
  by (simp add: vol_fname_def)

lemma resample_loop_all:
  assumes ok: "\<forall>a. at_run a" and n: "n \<le> length bold"
  shows "resample_loop at_run bold xform use_fieldwarp fieldwarp [i..<n] warped runs =
           Inr (warped @ map warped_vol_fname [i..<n],
                runs @ map (\<lambda>x. \<lparr>reference_image = bold ! 0, input_image = bold ! x,
                                   output_image = warped_vol_fname x,
                                   transforms = (if use_fieldwarp then [xform ! x, fieldwarp]
                                                 else [xform ! x])\<rparr>) [i..<n])"
proof (induction "n - i" arbitrary: i warped runs)
  case 0
  then show ?case by simp
next
  case (Suc k)
  then have lt: "i < n" and k: "k = n - Suc i" by simp_all
  from Suc.hyps(1) [OF k] lt n ok show ?case
    by (simp add: upt_conv_Cons Let_def)
qed

text \<open>
  C9, as the code has it. The loop runs over the frame indices of the transform series.
  With a 4-D series of \<open>m\<close> frames, a 5-D transform series of \<open>n \<le> m\<close> frames and a
  resampler that succeeds: the volume \<open>x\<close> of the series and the transform \<open>x\<close> are
  written to files of their own; the resampler runs once for each index below \<open>n\<close>,
  in order; the run for index \<open>x\<close> takes the file of volume \<open>x\<close> and the chain that
  starts with the file of transform \<open>x\<close>, followed by the distortion field exactly
  when the flag is set; the output volumes are listed in index order.
\<close>

theorem applyTransforms_runs:
  assumes "shape (Rank4 b) ! 3 = m" and "shape (Rank5 w) ! 3 = n" and "n \<le> m" and "0 < m"
    and "\<forall>a. at_run a"
  shows "\<exists>bold xform.
           split_volumes (Rank4 b) ''bold_'' = Inr (Some (bold, m))
         \<and> split_volumes (Rank5 w) ''xform_'' = Inr (Some (xform, n))
         \<and> length bold = m \<and> length xform = n
         \<and> (\<forall>x<m. snd (bold ! x) = Vol3 (index_axis3 x b))
         \<and> (\<forall>x<n. snd (xform ! x) = Vol4 (index_axis3 x w))
         \<and> distinct (map fst bold @ map fst xform)
         \<and> applyTransforms_run_interface at_run (Rank4 b) (Rank5 w) use_fieldwarp fieldwarp =
             Inr (map warped_vol_fname [0..<n],
                  map (\<lambda>x. \<lparr>reference_image = fst (bold ! 0),
                             input_image = fst (bold ! x),
                             output_image = warped_vol_fname x,
                             transforms = (if use_fieldwarp then [fst (xform ! x), fieldwarp]
                                           else [fst (xform ! x)])\<rparr>) [0..<n])"
proof -
  define bold where
    "bold = map (\<lambda>x. (vol_fname ''bold_'' x, Vol3 (index_axis3 x b))) [0..<m]"
  define xform where
    "xform = map (\<lambda>x. (vol_fname ''xform_'' x, Vol4 (index_axis3 x w))) [0..<n]"
  have sb: "split_volumes (Rank4 b) ''bold_'' = Inr (Some (bold, m))"
    using assms(1) by (simp add: split_volumes_def Let_def bold_def)
  have sx: "split_volumes (Rank5 w) ''xform_'' = Inr (Some (xform, n))"
    using assms(2) by (simp add: split_volumes_def Let_def xform_def)
  have lens: "length bold = m" "length xform = n" by (simp_all add: bold_def xform_def)
  have data: "\<forall>x<m. snd (bold ! x) = Vol3 (index_axis3 x b)"
    "\<forall>x<n. snd (xform ! x) = Vol4 (index_axis3 x w)"
    by (simp_all add: bold_def xform_def)
  have names: "map fst bold = map (vol_fname ''bold_'') [0..<m]"
    "map fst xform = map (vol_fname ''xform_'') [0..<n]"
    by (simp_all add: bold_def xform_def comp_def)
  have dist: "distinct (map fst bold @ map fst xform)"
    unfolding names by (auto simp: distinct_vol_fnames bold_xform_fnames)
  have ne: "bold \<noteq> []" using assms(4) lens by auto
  have loop: "resample_loop at_run (map fst bold) (map fst xform) use_fieldwarp fieldwarp
                [0..<n] [] [] =
         Inr ([] @ map warped_vol_fname [0..<n],
              [] @ map (\<lambda>x. \<lparr>reference_image = map fst bold ! 0,
                                   input_image = map fst bold ! x,
                                   output_image = warped_vol_fname x,
                                   transforms = (if use_fieldwarp
                                                 then [map fst xform ! x, fieldwarp]
                                                 else [map fst xform ! x])\<rparr>) [0..<n])"
    by (rule resample_loop_all [OF assms(5)]) (simp add: lens assms(3))
  have runs: "map (\<lambda>x. \<lparr>reference_image = map fst bold ! 0,
                                   input_image = map fst bold ! x,
                                   output_image = warped_vol_fname x,
                                   transforms = (if use_fieldwarp
                                                 then [map fst xform ! x, fieldwarp]
                                                 else [map fst xform ! x])\<rparr>) [0..<n]
      = map (\<lambda>x. \<lparr>reference_image = fst (bold ! 0),
                             input_image = fst (bold ! x),
                             output_image = warped_vol_fname x,
                             transforms = (if use_fieldwarp then [fst (xform ! x), fieldwarp]
                                           else [fst (xform ! x)])\<rparr>) [0..<n]"
    using assms(3,4) lens by (intro map_cong refl) simp
  have run: "applyTransforms_run_interface at_run (Rank4 b) (Rank5 w) use_fieldwarp fieldwarp =
             Inr (map warped_vol_fname [0..<n],
                  map (\<lambda>x. \<lparr>reference_image = fst (bold ! 0),
                             input_image = fst (bold ! x),
                             output_image = warped_vol_fname x,
                             transforms = (if use_fieldwarp then [fst (xform ! x), fieldwarp]
                                           else [fst (xform ! x)])\<rparr>) [0..<n])"
    unfolding applyTransforms_run_interface_def sb sx
    using ne loop runs by simp
  from sb sx lens data dist run show ?thesis by blast
qed

theorem applyTransforms_runs_witness:
  "applyTransforms_run_interface (\<lambda>a. True) (Rank4 [[[[1, 2]]]]) (Rank5 [[[[[1, 0], [0, 1]]]]])
       True ''warp.nii.gz'' =
     Inr ([''deformed_volume1.nii.gz'', ''deformed_volume2.nii.gz''],
          [\<lparr>reference_image = ''bold_vol0.nii.gz'', input_image = ''bold_vol0.nii.gz'',
            output_image = ''deformed_volume1.nii.gz'',
            transforms = [''xform_vol0.nii.gz'', ''warp.nii.gz'']\<rparr>,
           \<lparr>reference_image = ''bold_vol0.nii.gz'', input_image = ''bold_vol1.nii.gz'',
            output_image = ''deformed_volume2.nii.gz'',
            transforms = [''xform_vol1.nii.gz'', ''warp.nii.gz'']\<rparr>])
   \<and> applyTransforms_run_interface (\<lambda>a. True) (Rank4 [[[[1, 2]]]])
       (Rank5 [[[[[1, 0], [0, 1]]]]]) False ''warp.nii.gz'' =
     Inr ([''deformed_volume1.nii.gz'', ''deformed_volume2.nii.gz''],
          [\<lparr>reference_image = ''bold_vol0.nii.gz'', input_image = ''bold_vol0.nii.gz'',
            output_image = ''deformed_volume1.nii.gz'',
            transforms = [''xform_vol0.nii.gz'']\<rparr>,
           \<lparr>reference_image = ''bold_vol0.nii.gz'', input_image = ''bold_vol1.nii.gz'',
            output_image = ''deformed_volume2.nii.gz'',
            transforms = [''xform_vol1.nii.gz'']\<rparr>])"
proof -
  let ?b = "[[[[1, 2]]]] :: arr4" and ?w = "[[[[[1, 0], [0, 1]]]]] :: arr5"
  have a: "shape (Rank4 ?b) ! 3 = 2" and b: "shape (Rank5 ?w) ! 3 = 2"
    and c: "(2::nat) \<le> 2" and d: "(0::nat) < 2"
    and e: "\<forall>a::at_inputs. (\<lambda>a. True) a" by simp_all
  have two: "[0..<2] = [0, 1]" by (simp add: upt_rec)
  have sb: "split_volumes (Rank4 ?b) ''bold_'' =
      Inr (Some ([(''bold_vol0.nii.gz'', Vol3 [[[1]]]), (''bold_vol1.nii.gz'', Vol3 [[[2]]])], 2))"
    by code_simp
  have sx: "split_volumes (Rank5 ?w) ''xform_'' =
      Inr (Some ([(''xform_vol0.nii.gz'', Vol4 [[[[1, 0]]]]),
                  (''xform_vol1.nii.gz'', Vol4 [[[[0, 1]]]])], 2))"
    by code_simp
  from applyTransforms_runs [OF a b c d e, of True "''warp.nii.gz''"]
    applyTransforms_runs [OF a b c d e, of False "''warp.nii.gz''"]
  show ?thesis
    by (auto simp: sb sx two warped_vol_fname_def str_nat.simps)
qed

text \<open>
  With 3 frames and 2 transforms the run returns normally after 2 runs of the
  resampler: frame 2 of the series is never resampled.
\<close>

theorem applyTransforms_fewer_transforms:
  "shape (Rank4 [[[[1, 2, 3]]]]) ! 3 = 3
   \<and> applyTransforms_run_interface (\<lambda>a. True) (Rank4 [[[[1, 2, 3]]]])
       (Rank5 [[[[[1, 0], [0, 1]]]]]) False ''warp.nii.gz'' =
     Inr ([''deformed_volume1.nii.gz'', ''deformed_volume2.nii.gz''],
          [\<lparr>reference_image = ''bold_vol0.nii.gz'', input_image = ''bold_vol0.nii.gz'',
            output_image = ''deformed_volume1.nii.gz'',
            transforms = [''xform_vol0.nii.gz'']\<rparr>,
           \<lparr>reference_image = ''bold_vol0.nii.gz'', input_image = ''bold_vol1.nii.gz'',
            output_image = ''deformed_volume2.nii.gz'',
            transforms = [''xform_vol1.nii.gz'']\<rparr>])"
  by code_simp

section \<open>Properties of EstimateReferenceImage\<close>

lemma length_mean_axis0_2: "length (mean_axis0_2 m) = length (hd m)"
  by (simp add: mean_axis0_2_def)

lemma length_global_signal:
  assumes "is_arr4 X Y Z T d" and "0 < X" and "0 < Y" and "0 < Z"
  shows "length (mean_axis0_2 (mean_axis0_3 (mean_axis0_4 (slice_axis3 0 50 d)))) = min T 50"
proof -
  from assms(1) have lens: "length d = X" "\<And>a. a \<in> set d \<Longrightarrow> length a = Y"
    "\<And>a b. a \<in> set d \<Longrightarrow> b \<in> set a \<Longrightarrow> length b = Z"
    "\<And>a b c. a \<in> set d \<Longrightarrow> b \<in> set a \<Longrightarrow> c \<in> set b \<Longrightarrow> length c = T"
    by (simp_all add: is_arr4_def)
  from lens(1) assms(2) have d: "hd d \<in> set d" "d \<noteq> []" by (auto intro: hd_in_set)
  from lens(2) [OF d(1)] assms(3) have a: "hd (hd d) \<in> set (hd d)" "hd d \<noteq> []"
    by (auto intro: hd_in_set)
  from lens(3) [OF d(1) a(1)] assms(4) have b: "hd (hd (hd d)) \<in> set (hd (hd d))"
    "hd (hd d) \<noteq> []" by (auto intro: hd_in_set)
  note l = lens(2) [OF d(1)] lens(3) [OF d(1) a(1)] lens(4) [OF d(1) a(1) b(1)]
  from d a b l assms(3,4) show ?thesis
    by (simp add: mean_axis0_2_def mean_axis0_3_def mean_axis0_4_def slice_axis3_def
        hd_map hd_conv_nth min.commute)
qed

lemma slice_of_first_50:
  "n \<le> 50 \<Longrightarrow> slice_axis3 0 n (slice_axis3 0 50 d) = map (map (map (take n))) d"
  by (simp add: slice_axis3_def min_def)

text \<open>
  C6. When the detector counts \<open>n > 0\<close> dummy volumes, the reference image is the
  voxel-wise median of the first \<open>n\<close> frames and the solver is not run. The detector
  is any function that returns a count of elements of the trace it is given.
\<close>

theorem EstimateReferenceImage_dummy_volumes:
  assumes "is_arr4 X Y Z T d" and "0 < X" and "0 < Y" and "0 < Z"
    and "\<forall>trace. detect trace \<le> length trace"
    and "get_vols_to_discard detect d = n" and "0 < n"
  shows "EstimateReferenceImage_run_interface detect antsMotionCorr d (Some name) =
           (Inr (map (map (map (\<lambda>v. median (take n v)))) d, n), [])"
proof -
  from assms(5,6) length_global_signal [OF assms(1-4)] have "n \<le> 50"
    by (auto simp: get_vols_to_discard_def Let_def dest: spec
        [of _ "mean_axis0_2 (mean_axis0_3 (mean_axis0_4 (slice_axis3 0 50 d)))"])
  then show ?thesis
    using assms(6,7)
    by (simp add: EstimateReferenceImage_run_interface_def Let_def slice_of_first_50
        median_axis3_def)
qed

theorem EstimateReferenceImage_dummy_volumes_witness:
  "EstimateReferenceImage_run_interface (\<lambda>trace. length (takeWhile (\<lambda>x. 50 < x) trace))
       (\<lambda>r. Inl ExternalToolError)
       [[[[100, 90, 10, 10, 10], [50, 60, 10, 10, 10]]]] (Some ''sub-01_ses-1_run-1'') =
     (Inr ([[[95, 55]]], 2), [])"
proof -
  let ?d = "[[[[100, 90, 10, 10, 10], [50, 60, 10, 10, 10]]]] :: arr4"
  let ?det = "\<lambda>trace :: real list. length (takeWhile (\<lambda>x. 50 < x) trace)"
  have a: "is_arr4 1 1 2 5 ?d" by (simp add: is_arr4_def)
  have b: "(0::nat) < 1" and c: "(0::nat) < 2" by simp_all
  have e: "\<forall>trace. ?det trace \<le> length trace"
    by (simp add: length_takeWhile_le)
  have f: "get_vols_to_discard ?det ?d = 2" by code_simp
  have m: "map (map (map (\<lambda>v. median (take 2 v)))) ?d = [[[95, 55]]]" by code_simp
  from EstimateReferenceImage_dummy_volumes [OF a b b c e f c, of "\<lambda>r. Inl ExternalToolError"
      "''sub-01_ses-1_run-1''"]
  show ?thesis unfolding m .
qed

lemma window_of_first_50:
  "slice_axis3 20 40 (slice_axis3 0 50 d) = map (map (map (\<lambda>v. take 20 (drop 20 v)))) d"
proof -
  have "take 20 (drop 20 (take 50 v)) = take 20 (drop 20 v)" for v :: "real list"
    by (simp add: drop_take)
  then show ?thesis by (simp add: slice_axis3_def)
qed

lemma first_50_of_short:
  assumes "is_arr4 X Y Z T d" and "T \<le> 50"
  shows "slice_axis3 0 50 d = d"
  unfolding slice_axis3_def using assms by (intro map_idI) (simp add: is_arr4_def)

lemma num_frames_regular:
  assumes "is_arr4 X Y Z T d" and "0 < X" and "0 < Y" and "0 < Z"
  shows "num_frames d = T"
  using shape_regular [OF assms] by (simp add: num_frames_def)

text \<open>
  C7, as the code has it: when no dummy volume is detected the solver is run, and the
  target of its first run is the voxel-wise median of frames 20 to 39 when the series
  has more than 40 frames, and the voxel-wise median of all its frames otherwise.
\<close>

theorem EstimateReferenceImage_initial_target:
  assumes "is_arr4 X Y Z T d" and "0 < X" and "0 < Y" and "0 < Z"
    and "get_vols_to_discard detect d = 0"
  shows "snd (EstimateReferenceImage_run_interface detect antsMotionCorr d (Some name)) \<noteq> []
       \<and> mc_ref_file (hd (snd (EstimateReferenceImage_run_interface detect antsMotionCorr d
            (Some name)))) =
           (if 40 < T then map (map (map (\<lambda>v. median (take 20 (drop 20 v))))) d
            else map (map (map median)) d)"
proof -
  have nf: "num_frames d = T" by (rule num_frames_regular [OF assms(1-4)])
  have tgt: "initial_target d =
      (if 40 < T then (slice_axis3 20 40 (slice_axis3 0 50 d),
                        map (map (map (\<lambda>v. median (take 20 (drop 20 v))))) d)
       else (d, map (map (map median)) d))"
  proof (cases "40 < T")
    case True
    then show ?thesis
      by (simp add: initial_target_def nf window_of_first_50 median_axis3_def)
  next
    case False
    then have "slice_axis3 0 50 d = d" by (intro first_50_of_short [OF assms(1)]) simp
    with False show ?thesis by (simp add: initial_target_def nf median_axis3_def)
  qed
  show ?thesis
    using assms(5)
    by (simp add: EstimateReferenceImage_run_interface_def Let_def tgt
        split: sum.splits)
qed


theorem EstimateReferenceImage_initial_target_witness:
  "mc_ref_file (hd (snd (EstimateReferenceImage_run_interface (\<lambda>trace. 0)
       (\<lambda>r. Inr (mc_in_file r)) [[[replicate 20 0 @ replicate 21 1]]]
       (Some ''sub-01_ses-1_run-1'')))) = [[[1]]]
   \<and> mc_ref_file (hd (snd (EstimateReferenceImage_run_interface (\<lambda>trace. 0)
       (\<lambda>r. Inr (mc_in_file r)) [[[[1, 5, 3]]]] (Some ''sub-01_ses-1_run-1'')))) = [[[3]]]"
proof -
  let ?long = "[[[replicate 20 0 @ replicate 21 1]]] :: arr4"
  let ?short = "[[[[1, 5, 3]]]] :: arr4"
  have a: "is_arr4 1 1 1 41 ?long" and a': "is_arr4 1 1 1 3 ?short"
    by (simp_all add: is_arr4_def)
  have b: "(0::nat) < 1" by simp
  have z: "get_vols_to_discard (\<lambda>trace. 0) ?long = 0"
    and z': "get_vols_to_discard (\<lambda>trace. 0) ?short = 0"
    by (simp_all add: get_vols_to_discard_def)
  have "mc_ref_file (hd (snd (EstimateReferenceImage_run_interface (\<lambda>trace. 0)
          (\<lambda>r. Inr (mc_in_file r)) ?long (Some ''sub-01_ses-1_run-1'')))) =
        (if (40::nat) < 41 then map (map (map (\<lambda>v. median (take 20 (drop 20 v))))) ?long
         else map (map (map median)) ?long)"
    using EstimateReferenceImage_initial_target [OF a b b b z, of "\<lambda>r. Inr (mc_in_file r)"
        "''sub-01_ses-1_run-1''"] by (rule conjunct2)
  also have "\<dots> = map (map (map (\<lambda>v. median (take 20 (drop 20 v))))) ?long"
    by (rule if_P) simp
  also have "\<dots> = [[[1]]]" by code_simp
  finally have long: "mc_ref_file (hd (snd (EstimateReferenceImage_run_interface (\<lambda>trace. 0)
          (\<lambda>r. Inr (mc_in_file r)) ?long (Some ''sub-01_ses-1_run-1'')))) = [[[1]]]" .
  have "mc_ref_file (hd (snd (EstimateReferenceImage_run_interface (\<lambda>trace. 0)
          (\<lambda>r. Inr (mc_in_file r)) ?short (Some ''sub-01_ses-1_run-1'')))) =
        (if (40::nat) < 3 then map (map (map (\<lambda>v. median (take 20 (drop 20 v))))) ?short
         else map (map (map median)) ?short)"
    using EstimateReferenceImage_initial_target [OF a' b b b z', of "\<lambda>r. Inr (mc_in_file r)"
        "''sub-01_ses-1_run-1''"] by (rule conjunct2)
  also have "\<dots> = map (map (map median)) ?short"
    by (rule if_not_P) simp
  also have "\<dots> = [[[3]]]" by code_simp
  finally have short: "mc_ref_file (hd (snd (EstimateReferenceImage_run_interface (\<lambda>trace. 0)
          (\<lambda>r. Inr (mc_in_file r)) ?short (Some ''sub-01_ses-1_run-1'')))) = [[[3]]]" .
  from long short show ?thesis by (rule conjI)
qed

text \<open>
  On a series of exactly 40 frames the test \<open>in_nii.shape[-1] > 40\<close> fails and the
  target is the median of all 40 frames (1/2 here), not the median of frames 20 to
  39 (which is 1).
\<close>

theorem EstimateReferenceImage_40_frames:
  "num_frames [[[replicate 20 0 @ replicate 20 1]]] = 40
   \<and> mc_ref_file (hd (snd (EstimateReferenceImage_run_interface (\<lambda>trace. 0)
        (\<lambda>r. Inr (mc_in_file r)) [[[replicate 20 0 @ replicate 20 1]]]
        (Some ''sub-01_ses-1_run-1'')))) = [[[1 / 2]]]
   \<and> median_axis3 (slice_axis3 20 40 [[[replicate 20 0 @ replicate 20 1]]]) = [[[1]]]"
  by code_simp

end
